theory Spec2Isabelle
  imports Main
begin

section \<open>The document observer of NativeIFC (ifc\_observer.py)\<close>

text \<open>
  The observer is glue between the CAD host and the IFC collaborators. Host entities are
  duck-typed: the code probes them with \<^verbatim>\<open>hasattr\<close> and \<^verbatim>\<open>getattr\<close>. An attribute
  that may be absent is an \<open>'a attr\<close>; an attribute whose value may be Python's
  \<^verbatim>\<open>None\<close> holds an \<open>option\<close>. Reading an absent attribute with the dot raises
  \<^verbatim>\<open>AttributeError\<close>, which is a value of the model.
\<close>

subsection \<open>Python attributes and errors\<close>

datatype 'a attr = Missing | Attr 'a

datatype pyerror = AttributeError string

text \<open>\<^verbatim>\<open>hasattr(x, "name")\<close>, applied to the attribute slot of \<open>x\<close>.\<close>

fun hasattr :: "'a attr \<Rightarrow> bool" where
  "hasattr Missing = False"
| "hasattr (Attr v) = True"

text \<open>\<^verbatim>\<open>getattr(x, "name", default)\<close>.\<close>

fun getattr :: "'a attr \<Rightarrow> 'a \<Rightarrow> 'a" where
  "getattr Missing d = d"
| "getattr (Attr v) d = v"

text \<open>\<^verbatim>\<open>getattr(x, "name", None)\<close>: the value, or Python's None.\<close>

fun getattr_None :: "'a attr \<Rightarrow> 'a option" where
  "getattr_None Missing = None"
| "getattr_None (Attr v) = Some v"

text \<open>
  A result that keeps the state reached when an exception leaves the function: Python
  does not undo the assignments made before the raise.
\<close>

type_synonym 's result = "(pyerror \<times> 's) + 's"

subsection \<open>Host data\<close>

text \<open>The backing IFC file handle; the observer reads only its schema name.\<close>

datatype ifc_file = IfcFile (schema_name: string)

text \<open>
  The Python proxy object of a document or an object. The observer probes four of its
  attributes: \<^verbatim>\<open>nodelete\<close>, \<^verbatim>\<open>ifcfile\<close>, \<^verbatim>\<open>ghost\<close> (only its presence) and
  \<^verbatim>\<open>cached\<close>.
\<close>

record proxy =
  nodelete :: "bool attr"
  ifcfile :: "ifc_file option attr"
  ghost :: "unit attr"
  cached :: "bool attr"

text \<open>
  The view object of an entity and its view provider, whose \<^verbatim>\<open>save\<close> and
  \<^verbatim>\<open>save_as\<close> methods belong to a collaborator.
\<close>

datatype view_provider = ViewProvider

datatype view_object = ViewObj (view_Proxy: "view_provider option attr")

text \<open>
  What documents and document objects have in common. \<open>Name\<close> and \<open>Label\<close> always
  exist. \<open>TypeIds\<close> lists the host types the entity derives from. \<open>Document\<close> is the
  name of the owning document, which the host resolves. The dynamic properties are
  optional.
\<close>

record entity =
  Name :: string
  Label :: string
  TypeIds :: "string list"
  Document :: "string attr"
  IfcFilePath :: "string attr"
  Modified :: "bool attr"
  Schema :: "string attr"
  Proxy :: "proxy option attr"
  ViewObject :: "view_object option attr"
  StepId :: "int attr"
  IfcType :: "string attr"
  ShapeMode :: "string attr"

record document = entity +
  Objects :: "entity list"

text \<open>
  \<^verbatim>\<open>x.PropertiesList\<close>: the names of the dynamic properties the entity carries. The
  observer tests it for \<^verbatim>\<open>"IfcFilePath"\<close>, \<^verbatim>\<open>"StepId"\<close> and \<^verbatim>\<open>"IfcType"\<close>.
\<close>

definition PropertiesList :: "'a entity_scheme \<Rightarrow> string list" where
  "PropertiesList x =
     (if hasattr (IfcFilePath x) then [''IfcFilePath''] else []) @
     (if hasattr (Modified x) then [''Modified''] else []) @
     (if hasattr (Schema x) then [''Schema''] else []) @
     (if hasattr (Proxy x) then [''Proxy''] else []) @
     (if hasattr (StepId x) then [''StepId''] else []) @
     (if hasattr (IfcType x) then [''IfcType''] else []) @
     (if hasattr (ShapeMode x) then [''ShapeMode''] else []) @
     [''Label'']"

text \<open>\<^verbatim>\<open>obj.isDerivedFrom(t)\<close>.\<close>

definition isDerivedFrom :: "'a entity_scheme \<Rightarrow> string \<Rightarrow> bool" where
  "isDerivedFrom x t = (t \<in> set (TypeIds x))"

text \<open>\<^verbatim>\<open>doc.findObjects(Type=t)\<close>.\<close>

definition findObjects :: "document \<Rightarrow> string \<Rightarrow> entity list" where
  "findObjects doc t = filter (\<lambda>obj. isDerivedFrom obj t) (Objects doc)"

text \<open>\<^verbatim>\<open>doc.getObject(name)\<close>: the object of that name, or None.\<close>

definition getObject :: "document \<Rightarrow> string \<Rightarrow> entity option" where
  "getObject doc n = find (\<lambda>obj. Name obj = n) (Objects doc)"

subsection \<open>Effects\<close>

text \<open>The bound methods handed to \<^verbatim>\<open>QTimer.singleShot\<close>.\<close>

datatype callback =
    CbSave
  | CbConvert
  | CbFitAll
  | CbTouch string
  | CbRecompute string

text \<open>
  Every call the observer makes into the GUI toolkit, the host or a collaborator, in
  the order made. Entities are named by \<open>Name\<close>.
\<close>

datatype call =
    SingleShot nat callback
  | RemoveIfcElement string
  | MigrateSchema ifc_file string
  | CreateGhost string
  | SendMsgToActiveView string
  | DialogExec
  | ParamSetBool bool
  | ViewProxySave string
  | ViewProxySaveAs string
  | Print string
  | Aggregate string string
  | AddGeomProperties string
  | Recompute string

text \<open>
  The host as the observer sees it: \<^verbatim>\<open>FreeCAD.listDocuments()\<close> (the open documents
  by name), \<^verbatim>\<open>FreeCAD.GuiUp\<close>,
  the stored value of the \<^verbatim>\<open>AskBeforeSaving\<close> parameter (None when never written),
  and the log of calls.
\<close>

record host =
  documents :: "string \<rightharpoonup> document"
  GuiUp :: bool
  AskBeforeSaving :: "bool option"
  calls :: "call list"

definition emit :: "call \<Rightarrow> host \<Rightarrow> host" where
  "emit c h = h\<lparr>calls := calls h @ [c]\<rparr>"

text \<open>\<^verbatim>\<open>QtCore.QTimer.singleShot(ms, cb)\<close>.\<close>

definition singleShot :: "nat \<Rightarrow> callback \<Rightarrow> host \<Rightarrow> host" where
  "singleShot ms cb h = emit (SingleShot ms cb) h"

text \<open>\<^verbatim>\<open>params.GetBool("AskBeforeSaving", default)\<close> and \<^verbatim>\<open>params.SetBool\<close>.\<close>

definition GetBool :: "host \<Rightarrow> bool \<Rightarrow> bool" where
  "GetBool h d = (case AskBeforeSaving h of None \<Rightarrow> d | Some b \<Rightarrow> b)"

definition SetBool :: "bool \<Rightarrow> host \<Rightarrow> host" where
  "SetBool b h = emit (ParamSetBool b) (h\<lparr>AskBeforeSaving := Some b\<rparr>)"

text \<open>
  The results of the collaborators the observer branches on. Their own effects on the
  IFC file are outside this file; the log records that they were called.
\<close>

record collaborators =
  get_project :: "entity \<Rightarrow> entity option"
  get_ifcfile :: "document \<Rightarrow> ifc_file option"
  migrate_schema :: "ifc_file \<Rightarrow> string \<Rightarrow> ifc_file \<times> (int \<times> int) list"
  aggregate :: "entity \<Rightarrow> document \<Rightarrow> entity"

text \<open>What the user does with the confirmation dialog, when it is shown.\<close>

record dialog =
  exec_result :: bool
  checkAskBeforeSaving :: bool

text \<open>The observer instance: its two scratch attributes.\<close>

record ifc_observer =
  docname :: "string attr"
  objname :: "string attr"

subsection \<open>slotStartSaveDocument\<close>

definition slotStartSaveDocument ::
  "ifc_observer \<Rightarrow> host \<Rightarrow> document \<Rightarrow> bool \<Rightarrow> ifc_observer \<times> host" where
  "slotStartSaveDocument self h doc val =
     (self\<lparr>docname := Attr (Name doc)\<rparr>, singleShot 100 CbSave h)"

subsection \<open>slotDeletedObject\<close>

definition slotDeletedObject :: "collaborators \<Rightarrow> host \<Rightarrow> entity \<Rightarrow> host" where
  "slotDeletedObject ifc_tools h obj =
     (case get_project ifc_tools obj of
        None \<Rightarrow> h
      | Some proj \<Rightarrow>
          (case Proxy obj of
             Missing \<Rightarrow> h
           | Attr p \<Rightarrow>
               if (case p of None \<Rightarrow> False | Some px \<Rightarrow> getattr (nodelete px) False)
               then h
               else emit (RemoveIfcElement (Name obj)) h))"

subsection \<open>slotChangedDocument\<close>

text \<open>
  One turn of the loop over \<^verbatim>\<open>migration_table.items()\<close>. \<open>child\<close> holds the
  positions in \<^verbatim>\<open>doc.Objects\<close> of the matching objects, so that the assignment to
  \<^verbatim>\<open>child[0].StepId\<close> lands on the object of the document.
\<close>

definition migrate_pair :: "int \<Rightarrow> int \<Rightarrow> entity list \<Rightarrow> entity list" where
  "migrate_pair old_id new_id objs =
     (let child = filter (\<lambda>i. getattr_None (StepId (objs ! i)) = Some old_id)
                    [0..<length objs]
      in case child of
           [i] \<Rightarrow> objs[i := (objs ! i)\<lparr>StepId := Attr new_id\<rparr>]
         | _ \<Rightarrow> objs)"

fun migrate_children :: "(int \<times> int) list \<Rightarrow> entity list \<Rightarrow> entity list" where
  "migrate_children [] objs = objs"
| "migrate_children ((old_id, new_id) # items) objs =
     migrate_children items (migrate_pair old_id new_id objs)"

definition slotChangedDocument ::
  "collaborators \<Rightarrow> host \<Rightarrow> document \<Rightarrow> string \<Rightarrow> (document \<times> host) result" where
  "slotChangedDocument ifc_tools h doc prop =
     (if prop = ''Schema'' \<and> ''IfcFilePath'' \<in> set (PropertiesList doc) then
        (case Schema doc of
           Missing \<Rightarrow> Inl (AttributeError ''Schema'', (doc, h))
         | Attr schema \<Rightarrow>
             (case get_ifcfile ifc_tools doc of
                None \<Rightarrow> Inr (doc, h)
              | Some f \<Rightarrow>
                  if schema \<noteq> schema_name f then
                    (let (f', migration_table) = migrate_schema ifc_tools f schema;
                         h1 = emit (MigrateSchema f schema) h
                     in case Proxy doc of
                          Missing \<Rightarrow> Inl (AttributeError ''Proxy'', (doc, h1))
                        | Attr None \<Rightarrow> Inl (AttributeError ''ifcfile'', (doc, h1))
                        | Attr (Some p) \<Rightarrow>
                            Inr (doc\<lparr>Proxy := Attr (Some (p\<lparr>ifcfile := Attr (Some f')\<rparr>)),
                                     Objects := migrate_children migration_table (Objects doc)\<rparr>,
                                 h1))
                  else Inr (doc, h)))
      else Inr (doc, h))"

subsection \<open>slotCreatedObject\<close>

text \<open>
  \<^verbatim>\<open>getattr(obj, "Document", None)\<close>: the host resolves the owning document; an object
  without one yields None.
\<close>

definition getattr_Document :: "host \<Rightarrow> entity \<Rightarrow> document option" where
  "getattr_Document h obj =
     (case Document obj of Missing \<Rightarrow> None | Attr dn \<Rightarrow> documents h dn)"

definition slotCreatedObject ::
  "ifc_observer \<Rightarrow> host \<Rightarrow> entity \<Rightarrow> ifc_observer \<times> host" where
  "slotCreatedObject self h obj =
     (case getattr_Document h obj of
        None \<Rightarrow> (self, h)
      | Some doc \<Rightarrow>
          if hasattr (IfcFilePath doc) then
            (self\<lparr>objname := Attr (Name obj), docname := Attr (Name doc)\<rparr>,
             singleShot 100 CbConvert h)
          else (self, h))"

subsection \<open>slotActivateDocument and fit\_all\<close>

definition cons_result :: "entity \<Rightarrow> (entity list \<times> host) result \<Rightarrow> (entity list \<times> host) result" where
  "cons_result x r =
     (case r of
        Inl (e, (xs, h)) \<Rightarrow> Inl (e, (x # xs, h))
      | Inr (xs, h) \<Rightarrow> Inr (x # xs, h))"

text \<open>
  The loop over \<^verbatim>\<open>doc.Objects\<close>. The assignment to \<^verbatim>\<open>obj.Proxy.cached\<close> raises when
  the object has no proxy; the objects before it keep their new flag.
\<close>

fun activate_objects :: "entity list \<Rightarrow> host \<Rightarrow> (entity list \<times> host) result" where
  "activate_objects [] h = Inr ([], h)"
| "activate_objects (obj # objs) h =
     (if getattr_None (ShapeMode obj) = Some ''Coin'' then
        (case Proxy obj of
           Missing \<Rightarrow> Inl (AttributeError ''Proxy'', (obj # objs, h))
         | Attr None \<Rightarrow> Inl (AttributeError ''cached'', (obj # objs, h))
         | Attr (Some p) \<Rightarrow>
             cons_result (obj\<lparr>Proxy := Attr (Some (p\<lparr>cached := Attr True\<rparr>))\<rparr>)
               (activate_objects objs (singleShot 100 (CbTouch (Name obj)) h)))
      else cons_result obj (activate_objects objs h))"

definition slotActivateDocument :: "host \<Rightarrow> document \<Rightarrow> (document \<times> host) result" where
  "slotActivateDocument h doc =
     (case Proxy doc of
        Attr (Some p) \<Rightarrow>
          if hasattr (ifcfile p) then
            (if Objects doc \<noteq> [] then
               (case activate_objects (Objects doc) h of
                  Inl (e, (objs, h1)) \<Rightarrow> Inl (e, (doc\<lparr>Objects := objs\<rparr>, h1))
                | Inr (objs, h1) \<Rightarrow>
                    Inr (doc\<lparr>Objects := objs\<rparr>,
                         singleShot 100 CbFitAll
                           (singleShot 100 (CbRecompute (Name doc)) h1)))
             else if \<not> hasattr (ghost p) then
               Inr (doc, emit (CreateGhost (Name doc)) h)
             else Inr (doc, h))
          else Inr (doc, h)
      | _ \<Rightarrow> Inr (doc, h))"


subsection \<open>save\<close>

text \<open>Lines 133 to 141: the list \<^verbatim>\<open>objs\<close>.\<close>

definition save_candidates :: "document \<Rightarrow> entity list" where
  "save_candidates doc =
     (if hasattr (IfcFilePath doc) \<and> hasattr (Modified doc) then
        (if Modified doc = Attr True then [entity.truncate doc] else [])
      else
        filter (\<lambda>obj. hasattr (IfcFilePath obj) \<and> hasattr (Modified obj)
                       \<and> Modified obj = Attr True)
          (findObjects doc ''Part::FeaturePython''))"

text \<open>\<^verbatim>\<open>obj.ViewObject.Proxy.save()\<close> or \<^verbatim>\<open>save_as()\<close>.\<close>

definition call_view_proxy :: "(string \<Rightarrow> call) \<Rightarrow> string \<Rightarrow> entity \<Rightarrow> host \<Rightarrow> host result" where
  "call_view_proxy method mname obj h =
     (case ViewObject obj of
        Missing \<Rightarrow> Inl (AttributeError ''ViewObject'', h)
      | Attr None \<Rightarrow> Inl (AttributeError ''Proxy'', h)
      | Attr (Some vo) \<Rightarrow>
          (case view_Proxy vo of
             Missing \<Rightarrow> Inl (AttributeError ''Proxy'', h)
           | Attr None \<Rightarrow> Inl (AttributeError mname, h)
           | Attr (Some vp) \<Rightarrow> Inr (emit (method (Name obj)) h)))"

text \<open>The body of the loop over \<^verbatim>\<open>objs\<close>.\<close>

definition save_object :: "entity \<Rightarrow> host \<Rightarrow> host result" where
  "save_object obj h =
     (case IfcFilePath obj of
        Missing \<Rightarrow> Inl (AttributeError ''IfcFilePath'', h)
      | Attr path \<Rightarrow>
          if path \<noteq> [] then
            (case Proxy obj of
               Missing \<Rightarrow> Inl (AttributeError ''Proxy'', h)
             | Attr p \<Rightarrow>
                 if (case p of None \<Rightarrow> False
                     | Some px \<Rightarrow> getattr (ifcfile px) None \<noteq> None)
                 then call_view_proxy ViewProxySave ''save'' obj h
                 else call_view_proxy ViewProxySaveAs ''save_as'' obj h)
          else call_view_proxy ViewProxySaveAs ''save_as'' obj h)"

fun save_all :: "entity list \<Rightarrow> host \<Rightarrow> host result" where
  "save_all [] h = Inr h"
| "save_all (obj # objs) h =
     (case save_object obj h of
        Inl err \<Rightarrow> Inl err
      | Inr h' \<Rightarrow> save_all objs h')"

definition with_self :: "ifc_observer \<Rightarrow> host result \<Rightarrow> (ifc_observer \<times> host) result" where
  "with_self self r =
     (case r of Inl (e, h) \<Rightarrow> Inl (e, (self, h)) | Inr h \<Rightarrow> Inr (self, h))"

text \<open>Lines 133 to 164: what \<^verbatim>\<open>save\<close> does with the document it found.\<close>

definition save_document ::
  "dialog \<Rightarrow> ifc_observer \<Rightarrow> host \<Rightarrow> document \<Rightarrow> (ifc_observer \<times> host) result" where
  "save_document dlg self h doc =
     (let objs = save_candidates doc
      in if objs \<noteq> [] then
           (let ask = GetBool h True
            in if ask \<and> GuiUp h then
                 (let h1 = emit DialogExec h
                  in if \<not> exec_result dlg then Inr (self, h1)
                     else with_self self
                            (save_all objs (SetBool (checkAskBeforeSaving dlg) h1)))
               else with_self self (save_all objs h))
         else Inr (self, h))"

definition save :: "dialog \<Rightarrow> ifc_observer \<Rightarrow> host \<Rightarrow> (ifc_observer \<times> host) result" where
  "save dlg self h =
     (case docname self of
        Missing \<Rightarrow> Inr (self, h)
      | Attr dn \<Rightarrow>
          (case documents h dn of
             None \<Rightarrow> Inr (self, h)
           | Some doc \<Rightarrow> save_document dlg (self\<lparr>docname := Missing\<rparr>) h doc))"

subsection \<open>convert\<close>

text \<open>
  \<^verbatim>\<open>FreeCAD.getDocument\<close> of a listed name gives a document, which is never falsy, so
  the test \<^verbatim>\<open>if not doc\<close> of line 174 has no branch of its own. \<^verbatim>\<open>print\<close> is logged
  with the text it writes.
\<close>

definition convert :: "collaborators \<Rightarrow> ifc_observer \<Rightarrow> host \<Rightarrow> ifc_observer \<times> host" where
  "convert ifc_tools self h =
     (case objname self of
        Missing \<Rightarrow> (self, h)
      | Attr on \<Rightarrow>
          (case docname self of
             Missing \<Rightarrow> (self, h)
           | Attr dn \<Rightarrow>
               (case documents h dn of
                  None \<Rightarrow> (self, h)
                | Some doc \<Rightarrow>
                    (case getObject doc on of
                       None \<Rightarrow> (self, h)
                     | Some obj \<Rightarrow>
                         if ''StepId'' \<in> set (PropertiesList obj) then (self, h)
                         else
                           (let self1 = self\<lparr>docname := Missing, objname := Missing\<rparr>
                            in if isDerivedFrom obj ''Part::Feature'' then
                                 (if ''IfcType'' \<in> set (PropertiesList obj) then
                                    (let h1 = emit (Print (''Converting '' @ Label obj @ '' to IFC'')) h;
                                         newobj = aggregate ifc_tools obj doc;
                                         h2 = emit (Aggregate (Name obj) (Name doc)) h1;
                                         h3 = emit (AddGeomProperties (Name newobj)) h2
                                     in (self1, emit (Recompute (Name doc)) h3))
                                  else (self1, h))
                               else (self1, h))))))"

subsection \<open>Reading the results\<close>

text \<open>The calls made between two states of the host.\<close>

definition new_calls :: "host \<Rightarrow> host \<Rightarrow> call list" where
  "new_calls h h' = drop (length (calls h)) (calls h')"

text \<open>The state an operation leaves, whether it returned or raised.\<close>

definition outcome :: "'s result \<Rightarrow> 's" where
  "outcome r = (case r of Inl (e, s) \<Rightarrow> s | Inr s \<Rightarrow> s)"

subsection \<open>The migration of one pair, in the words of the specification\<close>





text \<open>The calls that write the \<^verbatim>\<open>AskBeforeSaving\<close> parameter.\<close>

fun is_SetBool :: "call \<Rightarrow> bool" where
  "is_SetBool (ParamSetBool b) = True"
| "is_SetBool c = False"

text \<open>How often \<^verbatim>\<open>ifc_generator.create_ghost\<close> has been called.\<close>

fun is_CreateGhost :: "call \<Rightarrow> bool" where
  "is_CreateGhost (CreateGhost n) = True"
| "is_CreateGhost c = False"

definition ghost_calls :: "host \<Rightarrow> nat" where
  "ghost_calls h = length (filter is_CreateGhost (calls h))"

subsection \<open>Save candidates, in the words of the specification\<close>

text \<open>An entity that carries the IFC file path and the modified flag, and is modified.\<close>

definition modified_ifc :: "'a entity_scheme \<Rightarrow> bool" where
  "modified_ifc x = (hasattr (IfcFilePath x) \<and> hasattr (Modified x) \<and> Modified x = Attr True)"

text \<open>
  The document itself when it is such an entity; otherwise every such
  \<^verbatim>\<open>Part::FeaturePython\<close> object of the document.
\<close>

definition spec_candidates :: "document \<Rightarrow> entity list" where
  "spec_candidates doc =
     (if modified_ifc doc then [entity.truncate doc]
      else filter modified_ifc (findObjects doc ''Part::FeaturePython''))"

subsection \<open>What the loop of save needs of a candidate\<close>

text \<open>
  The loop reads \<^verbatim>\<open>obj.IfcFilePath\<close>, then \<^verbatim>\<open>obj.Proxy\<close> when the path is not empty,
  then \<^verbatim>\<open>obj.ViewObject.Proxy\<close> and its method. \<open>saveable\<close> says that all of them
  exist; \<open>save_call\<close> is the method the loop then calls.
\<close>

definition has_view_provider :: "entity \<Rightarrow> bool" where
  "has_view_provider obj =
     (case ViewObject obj of
        Attr (Some vo) \<Rightarrow> (case view_Proxy vo of Attr (Some vp) \<Rightarrow> True | _ \<Rightarrow> False)
      | _ \<Rightarrow> False)"

definition saveable :: "entity \<Rightarrow> bool" where
  "saveable obj =
     (case IfcFilePath obj of
        Missing \<Rightarrow> False
      | Attr path \<Rightarrow> (path = [] \<or> hasattr (Proxy obj)) \<and> has_view_provider obj)"

definition has_ifcfile :: "entity \<Rightarrow> bool" where
  "has_ifcfile obj =
     (case Proxy obj of
        Attr (Some px) \<Rightarrow> (case ifcfile px of Attr (Some f) \<Rightarrow> True | _ \<Rightarrow> False)
      | _ \<Rightarrow> False)"

definition save_call :: "entity \<Rightarrow> call" where
  "save_call obj =
     (if getattr (IfcFilePath obj) [] \<noteq> [] \<and> has_ifcfile obj
      then ViewProxySave (Name obj) else ViewProxySaveAs (Name obj))"

subsection \<open>Example data\<close>

definition plain_entity :: "string \<Rightarrow> entity" where
  "plain_entity n =
     \<lparr>Name = n, Label = n, TypeIds = [], Document = Missing, IfcFilePath = Missing,
      Modified = Missing, Schema = Missing, Proxy = Missing, ViewObject = Missing,
      StepId = Missing, IfcType = Missing, ShapeMode = Missing\<rparr>"

definition plain_document :: "string \<Rightarrow> entity list \<Rightarrow> document" where
  "plain_document n objs = entity.extend (plain_entity n) (document.fields objs)"

definition plain_proxy :: proxy where
  "plain_proxy = \<lparr>nodelete = Missing, ifcfile = Missing, ghost = Missing, cached = Missing\<rparr>"

definition empty_host :: host where
  "empty_host = \<lparr>documents = Map.empty, GuiUp = False, AskBeforeSaving = None, calls = []\<rparr>"

text \<open>
  Collaborators for the examples: every object belongs to a project, the live file of
  every document is an IFC4 file, and a migration renumbers 10 to 20 and 11 to 21.
\<close>

definition example_tools :: collaborators where
  "example_tools =
     \<lparr>get_project = (\<lambda>obj. Some (plain_entity ''Project'')),
      get_ifcfile = (\<lambda>doc. Some (IfcFile ''IFC4'')),
      migrate_schema = (\<lambda>f schema. (IfcFile schema, [(10, 20), (11, 21)])),
      aggregate = (\<lambda>obj doc. obj)\<rparr>"

text \<open>A wall with a proxy that carries no flag.\<close>

definition example_wall :: entity where
  "example_wall = (plain_entity ''Wall'')\<lparr>Proxy := Attr (Some plain_proxy)\<rparr>"

text \<open>An IFC document that declares IFC2X3, and a document without the marker.\<close>

definition example_ifc_document :: document where
  "example_ifc_document =
     (plain_document ''Project'' [])
       \<lparr>IfcFilePath := Attr ''project.ifc'', Schema := Attr ''IFC2X3'',
        Proxy := Attr (Some plain_proxy)\<rparr>"

definition example_plain_host :: host where
  "example_plain_host = empty_host\<lparr>documents := [''Unnamed'' \<mapsto> plain_document ''Unnamed'' []]\<rparr>"

definition example_box :: entity where
  "example_box = (plain_entity ''Box'')\<lparr>Document := Attr ''Unnamed''\<rparr>"

text \<open>Objects that carry a step id, and two documents to migrate.\<close>

definition stepped :: "string \<Rightarrow> int \<Rightarrow> entity" where
  "stepped n k = (plain_entity n)\<lparr>StepId := Attr k\<rparr>"





text \<open>An empty IFC document before and after its ghost was made.\<close>

definition example_ghostless :: document where
  "example_ghostless =
     example_ifc_document
       \<lparr>Proxy := Attr (Some (plain_proxy\<lparr>ifcfile := Attr (Some (IfcFile ''IFC4''))\<rparr>))\<rparr>"

definition example_ghosted :: document where
  "example_ghosted =
     example_ifc_document
       \<lparr>Proxy := Attr (Some (plain_proxy\<lparr>ifcfile := Attr (Some (IfcFile ''IFC4'')),
                                          ghost := Attr ()\<rparr>))\<rparr>"

text \<open>
  A modified IFC project object with a view provider, inside a document that is not
  itself an IFC document; a host with a GUI that holds this document and an IFC
  document.
\<close>

definition example_feature :: entity where
  "example_feature =
     (plain_entity ''IfcProject'')
       \<lparr>TypeIds := [''Part::Feature'', ''Part::FeaturePython''],
        Document := Attr ''Unnamed'',
        IfcFilePath := Attr ''project.ifc'', Modified := Attr True,
        Proxy := Attr (Some plain_proxy),
        ViewObject := Attr (Some (ViewObj (Attr (Some ViewProvider))))\<rparr>"

definition example_container :: document where
  "example_container = plain_document ''Unnamed'' [example_feature]"

definition example_gui_host :: host where
  "example_gui_host =
     \<lparr>documents = [''Unnamed'' \<mapsto> example_container, ''Project'' \<mapsto> example_ifc_document],
      GuiUp = True, AskBeforeSaving = None, calls = []\<rparr>"

definition example_beam :: entity where
  "example_beam = (plain_entity ''Beam'')\<lparr>Document := Attr ''Project''\<rparr>"

definition idle :: ifc_observer where
  "idle = \<lparr>docname = Missing, objname = Missing\<rparr>"

text \<open>An IFC document that is not modified and holds a modified IFC object.\<close>

definition example_unmodified_project :: document where
  "example_unmodified_project =
     example_ifc_document\<lparr>Modified := Attr False, Objects := [example_feature]\<rparr>"

text \<open>
  Observers with pending names, a host whose only object already has a step id, and
  a host without a GUI, whose object has no view object.
\<close>

definition stale :: ifc_observer where
  "stale = \<lparr>docname = Attr ''Gone'', objname = Attr ''Box''\<rparr>"

definition waiting :: ifc_observer where
  "waiting = \<lparr>docname = Attr ''Unnamed'', objname = Attr ''IfcProject''\<rparr>"

definition example_converted_host :: host where
  "example_converted_host =
     empty_host\<lparr>documents :=
       [''Unnamed'' \<mapsto> plain_document ''Unnamed'' [stepped ''IfcProject'' 1]]\<rparr>"


text \<open>
  A modified slab of the IFC document, with a view provider, and a host with a GUI
  whose user has switched the confirmation off. The host holds the plain document
  with its modified IFC project and the given IFC document.
\<close>

definition example_slab :: entity where
  "example_slab =
     (plain_entity ''Slab'')
       \<lparr>TypeIds := [''Part::Feature'', ''Part::FeaturePython''],
        Document := Attr ''Project'',
        IfcFilePath := Attr ''slab.ifc'', Modified := Attr True,
        Proxy := Attr (Some plain_proxy),
        ViewObject := Attr (Some (ViewObj (Attr (Some ViewProvider))))\<rparr>"

definition example_project_with_slab :: document where
  "example_project_with_slab = example_ifc_document\<lparr>Objects := [example_slab]\<rparr>"

definition example_quiet_host :: "document \<Rightarrow> host" where
  "example_quiet_host project =
     \<lparr>documents = [''Unnamed'' \<mapsto> example_container, ''Project'' \<mapsto> project],
      GuiUp = True, AskBeforeSaving = Some False, calls = []\<rparr>"

section \<open>Properties\<close>

subsection \<open>Auxiliary facts\<close>

lemmas example_defs =
  plain_entity_def plain_document_def plain_proxy_def empty_host_def example_tools_def
  entity.defs document.defs

lemma new_calls_same: "new_calls h h = []"
  by (simp add: new_calls_def)

lemma new_calls_emit: "new_calls h (emit c h) = [c]"
  by (simp add: new_calls_def emit_def)

lemma getattr_False_iff: "getattr a False \<longleftrightarrow> a = Attr True"
  by (cases a) auto

lemma in_PropertiesList_IfcFilePath:
  "''IfcFilePath'' \<in> set (PropertiesList x) \<longleftrightarrow> hasattr (IfcFilePath x)"
  by (simp add: PropertiesList_def)

lemma in_PropertiesList_StepId:
  "''StepId'' \<in> set (PropertiesList x) \<longleftrightarrow> hasattr (StepId x)"
  by (simp add: PropertiesList_def)











lemma ghost_calls_singleShot: "ghost_calls (singleShot ms cb h) = ghost_calls h"
  by (simp add: ghost_calls_def singleShot_def emit_def)

lemma outcome_cons_result: "snd (outcome (cons_result x r)) = snd (outcome r)"
  by (auto simp add: outcome_def cons_result_def split: sum.splits prod.splits)

lemma ghost_calls_activate_objects:
  "ghost_calls (snd (outcome (activate_objects objs h))) = ghost_calls h"
proof (induction objs arbitrary: h)
  case Nil
  show ?case by (simp add: outcome_def)
next
  case (Cons obj objs)
  show ?case
    by (simp add: outcome_cons_result Cons.IH ghost_calls_singleShot
        split: attr.splits option.splits)
      (simp add: outcome_def)
qed

lemma AskBeforeSaving_emit: "AskBeforeSaving (emit c h) = AskBeforeSaving h"
  by (simp add: emit_def)

lemma calls_emit: "calls (emit c h) = calls h @ [c]"
  by (simp add: emit_def)

lemma call_view_proxy_frame:
  assumes "\<not> is_SetBool (method (Name obj))"
  shows "AskBeforeSaving (outcome (call_view_proxy method mname obj h)) = AskBeforeSaving h
   \<and> (\<exists>cs. calls (outcome (call_view_proxy method mname obj h)) = calls h @ cs
             \<and> filter is_SetBool cs = [])"
  using assms
  by (auto simp add: call_view_proxy_def outcome_def AskBeforeSaving_emit calls_emit
      split: attr.splits option.splits)

lemma save_object_frame:
  "AskBeforeSaving (outcome (save_object obj h)) = AskBeforeSaving h
   \<and> (\<exists>cs. calls (outcome (save_object obj h)) = calls h @ cs \<and> filter is_SetBool cs = [])"
proof -
  have fail: "AskBeforeSaving (outcome (Inl (e, h) :: host result)) = AskBeforeSaving h
   \<and> (\<exists>cs. calls (outcome (Inl (e, h) :: host result)) = calls h @ cs
             \<and> filter is_SetBool cs = [])" for e
    by (simp add: outcome_def)
  show ?thesis
    using fail call_view_proxy_frame [of ViewProxySave obj "''save''" h]
      call_view_proxy_frame [of ViewProxySaveAs obj "''save_as''" h]
    by (simp add: save_object_def split: attr.splits)
qed

lemma save_all_frame:
  "AskBeforeSaving (outcome (save_all objs h)) = AskBeforeSaving h
   \<and> (\<exists>cs. calls (outcome (save_all objs h)) = calls h @ cs \<and> filter is_SetBool cs = [])"
proof (induction objs arbitrary: h)
  case Nil
  show ?case by (simp add: outcome_def)
next
  case (Cons obj objs)
  show ?case
  proof (cases "save_object obj h")
    case (Inl err)
    then show ?thesis
      using save_object_frame [of obj h] by (simp add: outcome_def)
  next
    case (Inr h')
    obtain cs where cs: "AskBeforeSaving h' = AskBeforeSaving h" "calls h' = calls h @ cs"
      "filter is_SetBool cs = []"
      using Inr save_object_frame [of obj h] by (auto simp add: outcome_def)
    obtain ds where ds: "AskBeforeSaving (outcome (save_all objs h')) = AskBeforeSaving h'"
      "calls (outcome (save_all objs h')) = calls h' @ ds" "filter is_SetBool ds = []"
      using Cons.IH [of h'] by blast
    have "calls (outcome (save_all objs h')) = calls h @ (cs @ ds)
            \<and> filter is_SetBool (cs @ ds) = []"
      using cs ds by simp
    then show ?thesis
      using Inr cs(1) ds(1) by (simp del: append_assoc)
  qed
qed

lemma outcome_with_self: "outcome (with_self self r) = (self, outcome r)"
  by (auto simp add: outcome_def with_self_def split: sum.splits)

lemma outcome_save_document_self: "fst (outcome (save_document dlg s h doc)) = s"
  by (simp add: save_document_def Let_def outcome_with_self) (simp add: outcome_def)

lemma save_without_prompt:
  assumes "docname self = Attr dn" and "documents h dn = Some doc"
      and "\<not> (GetBool h True \<and> GuiUp h)"
  shows "snd (outcome (save dlg self h)) = outcome (save_all (save_candidates doc) h)"
  using assms
  by (auto simp add: save_def save_document_def Let_def outcome_with_self)
    (simp_all add: outcome_def)

lemma convert_clears:
  assumes "objname self = Attr on" and "docname self = Attr dn"
      and "documents h dn = Some doc" and "getObject doc on = Some obj"
      and "\<not> hasattr (StepId obj)"
  shows "fst (convert ifc_tools self h) = self\<lparr>docname := Missing, objname := Missing\<rparr>"
  using assms by (simp add: convert_def in_PropertiesList_StepId Let_def)

lemma convert_aborts:
  assumes "\<not> (\<exists>on dn doc obj. objname self = Attr on \<and> docname self = Attr dn
              \<and> documents h dn = Some doc \<and> getObject doc on = Some obj
              \<and> \<not> hasattr (StepId obj))"
  shows "convert ifc_tools self h = (self, h)"
  using assms
  by (auto simp add: convert_def in_PropertiesList_StepId split: attr.splits option.splits)

lemma save_clears:
  assumes "docname self = Attr dn" and "documents h dn = Some doc"
  shows "fst (outcome (save dlg self h)) = self\<lparr>docname := Missing\<rparr>"
  using assms by (simp add: save_def outcome_save_document_self)

lemma save_aborts:
  assumes "\<not> (\<exists>dn doc. docname self = Attr dn \<and> documents h dn = Some doc)"
  shows "save dlg self h = Inr (self, h)"
  using assms by (auto simp add: save_def split: attr.splits option.splits)

lemma call_view_proxy_provider:
  "has_view_provider obj \<Longrightarrow> call_view_proxy method mname obj h = Inr (emit (method (Name obj)) h)"
  by (auto simp add: has_view_provider_def call_view_proxy_def split: attr.splits option.splits)

lemma getattr_None_default: "getattr a None = None \<longleftrightarrow> a = Missing \<or> a = Attr None"
  by (cases a) auto

lemma save_object_saveable:
  "saveable obj \<Longrightarrow> save_object obj h = Inr (emit (save_call obj) h)"
  by (auto simp add: saveable_def save_object_def save_call_def has_ifcfile_def
      call_view_proxy_provider getattr_None_default split: attr.splits option.splits)

lemma save_all_saveable:
  "\<forall>obj \<in> set objs. saveable obj
     \<Longrightarrow> save_all objs h = Inr (h\<lparr>calls := calls h @ map save_call objs\<rparr>)"
proof (induction objs arbitrary: h)
  case Nil
  show ?case by simp
next
  case (Cons obj objs)
  then show ?case
    by (simp add: save_object_saveable emit_def)
qed










subsection \<open>The candidates of a save\<close>

text \<open>
  C1, as the claim states it, fails: a document that carries the \<^verbatim>\<open>IfcFilePath\<close> and
  \<^verbatim>\<open>Modified\<close> attributes and is not modified has no candidate at all, although one
  of its objects is a modified IFC object.
\<close>

theorem save_candidates_counterexample:
  "Modified example_unmodified_project = Attr False
   \<and> spec_candidates example_unmodified_project = [example_feature]
   \<and> save_candidates example_unmodified_project = []"
  by (simp add: spec_candidates_def save_candidates_def modified_ifc_def findObjects_def
      isDerivedFrom_def example_unmodified_project_def example_ifc_document_def
      example_feature_def example_defs)

text \<open>
  C1, amended. When the document carries both attributes, the document is the sole
  candidate if it is modified and there is no candidate if it is not. When it lacks
  one of them, the candidates are the \<^verbatim>\<open>Part::FeaturePython\<close> objects that carry both
  attributes and are modified; so for a document without \<^verbatim>\<open>IfcFilePath\<close>, with
  \<^verbatim>\<open>Modified\<close> false and one such object, that object is the only candidate. When no
  dialog is due, \<^verbatim>\<open>save\<close> runs its loop over exactly these candidates.
\<close>

theorem save_candidates_selection:
  "(hasattr (IfcFilePath doc) \<and> hasattr (Modified doc)
      \<longrightarrow> save_candidates doc
            = (if Modified doc = Attr True then [entity.truncate doc] else []))
   \<and> (\<not> (hasattr (IfcFilePath doc) \<and> hasattr (Modified doc))
      \<longrightarrow> save_candidates doc = filter modified_ifc (findObjects doc ''Part::FeaturePython''))
   \<and> (\<not> hasattr (IfcFilePath doc) \<and> Modified doc = Attr False \<and> Objects doc = [obj]
        \<and> isDerivedFrom obj ''Part::FeaturePython'' \<and> modified_ifc obj
      \<longrightarrow> save_candidates doc = [obj])
   \<and> (docname self = Attr dn \<and> documents h dn = Some doc \<and> \<not> (GetBool h True \<and> GuiUp h)
      \<longrightarrow> snd (outcome (save dlg self h)) = outcome (save_all (save_candidates doc) h))"
proof -
  have both: "hasattr (IfcFilePath doc) \<and> hasattr (Modified doc)
      \<longrightarrow> save_candidates doc
            = (if Modified doc = Attr True then [entity.truncate doc] else [])"
    by (simp add: save_candidates_def)
  have objects: "\<not> (hasattr (IfcFilePath doc) \<and> hasattr (Modified doc))
      \<longrightarrow> save_candidates doc = filter modified_ifc (findObjects doc ''Part::FeaturePython'')"
    by (auto simp add: save_candidates_def modified_ifc_def intro: filter_cong)
  have scenario: "\<not> hasattr (IfcFilePath doc) \<and> Modified doc = Attr False \<and> Objects doc = [obj]
        \<and> isDerivedFrom obj ''Part::FeaturePython'' \<and> modified_ifc obj
      \<longrightarrow> save_candidates doc = [obj]"
    using objects by (simp add: findObjects_def)
  show ?thesis
    using both objects scenario save_without_prompt [of self dn h doc dlg] by blast
qed

theorem save_candidates_selection_witness:
  "save_candidates (example_container\<lparr>Modified := Attr False\<rparr>) = [example_feature]
   \<and> save_candidates (example_ifc_document\<lparr>Modified := Attr True\<rparr>)
       = [entity.truncate (example_ifc_document\<lparr>Modified := Attr True\<rparr>)]"
proof -
  have plain: "\<not> hasattr (IfcFilePath (example_container\<lparr>Modified := Attr False\<rparr>))"
    "Modified (example_container\<lparr>Modified := Attr False\<rparr>) = Attr False"
    "Objects (example_container\<lparr>Modified := Attr False\<rparr>) = [example_feature]"
    "isDerivedFrom example_feature ''Part::FeaturePython''"
    "modified_ifc example_feature"
    by (simp_all add: example_container_def example_feature_def isDerivedFrom_def
        modified_ifc_def example_defs)
  have project: "hasattr (IfcFilePath (example_ifc_document\<lparr>Modified := Attr True\<rparr>))"
    "hasattr (Modified (example_ifc_document\<lparr>Modified := Attr True\<rparr>))"
    "Modified (example_ifc_document\<lparr>Modified := Attr True\<rparr>) = Attr True"
    by (simp_all add: example_ifc_document_def example_defs)
  have one: "save_candidates (example_container\<lparr>Modified := Attr False\<rparr>) = [example_feature]"
    using plain
      save_candidates_selection
        [where doc = "example_container\<lparr>Modified := Attr False\<rparr>" and obj = example_feature]
    by blast
  have two: "save_candidates (example_ifc_document\<lparr>Modified := Attr True\<rparr>)
       = [entity.truncate (example_ifc_document\<lparr>Modified := Attr True\<rparr>)]"
    using project
      save_candidates_selection
        [where doc = "example_ifc_document\<lparr>Modified := Attr True\<rparr>"]
    by (simp only: if_True simp_thms)
  show ?thesis
    using one two by (rule conjI)
qed

subsection \<open>When the pending names are deleted\<close>

text \<open>
  C2, as the claim states it, fails: \<^verbatim>\<open>convert\<close> returns with both names still set
  when the document is gone, when the object is gone and when the object has a
  \<^verbatim>\<open>StepId\<close>; \<^verbatim>\<open>save\<close> returns with \<^verbatim>\<open>docname\<close> still set when the document is
  gone.
\<close>

theorem pending_state_counterexample:
  "convert example_tools stale empty_host = (stale, empty_host)
   \<and> convert example_tools (waiting\<lparr>objname := Attr ''Box''\<rparr>) example_gui_host
       = (waiting\<lparr>objname := Attr ''Box''\<rparr>, example_gui_host)
   \<and> convert example_tools waiting example_converted_host = (waiting, example_converted_host)
   \<and> save \<lparr>exec_result = True, checkAskBeforeSaving = True\<rparr> stale empty_host
       = Inr (stale, empty_host)
   \<and> docname stale = Attr ''Gone'' \<and> objname stale = Attr ''Box''
   \<and> docname waiting = Attr ''Unnamed'' \<and> objname waiting = Attr ''IfcProject''"
  by (simp add: convert_def save_def stale_def waiting_def example_converted_host_def
      example_gui_host_def example_container_def example_feature_def getObject_def
      stepped_def PropertiesList_def example_defs)

text \<open>
  C2, amended. \<^verbatim>\<open>convert\<close> deletes both names once the document and the object are
  found and the object has no \<^verbatim>\<open>StepId\<close>, and otherwise returns with observer and
  host as they were. \<^verbatim>\<open>save\<close> deletes \<^verbatim>\<open>docname\<close> (and nothing else of the
  observer) once the document is found, whether it then returns or raises, and
  otherwise returns with observer and host as they were.
\<close>

theorem pending_state_cleared_after_guards:
  "(objname self = Attr on \<and> docname self = Attr dn \<and> documents h dn = Some doc
      \<and> getObject doc on = Some obj \<and> \<not> hasattr (StepId obj)
      \<longrightarrow> fst (convert ifc_tools self h) = self\<lparr>docname := Missing, objname := Missing\<rparr>)
   \<and> (\<not> (\<exists>on dn doc obj. objname self = Attr on \<and> docname self = Attr dn
              \<and> documents h dn = Some doc \<and> getObject doc on = Some obj
              \<and> \<not> hasattr (StepId obj))
      \<longrightarrow> convert ifc_tools self h = (self, h))
   \<and> (docname self = Attr dn \<and> documents h dn = Some doc
      \<longrightarrow> fst (outcome (save dlg self h)) = self\<lparr>docname := Missing\<rparr>)
   \<and> (\<not> (\<exists>dn doc. docname self = Attr dn \<and> documents h dn = Some doc)
      \<longrightarrow> save dlg self h = Inr (self, h))"
  using convert_clears [of self on dn h doc obj ifc_tools] convert_aborts [of self h ifc_tools]
    save_clears [of self dn h doc dlg] save_aborts [of self h dlg]
  by blast

theorem pending_state_cleared_after_guards_witness:
  "fst (convert example_tools waiting example_gui_host) = idle
   \<and> fst (outcome (save \<lparr>exec_result = True, checkAskBeforeSaving = True\<rparr>
                     waiting example_gui_host))
       = waiting\<lparr>docname := Missing\<rparr>"
proof -
  have guards: "objname waiting = Attr ''IfcProject''" "docname waiting = Attr ''Unnamed''"
    "documents example_gui_host ''Unnamed'' = Some example_container"
    "getObject example_container ''IfcProject'' = Some example_feature"
    "\<not> hasattr (StepId example_feature)"
    by (simp_all add: waiting_def example_gui_host_def example_container_def
        example_feature_def getObject_def example_defs)
  have cleared: "waiting\<lparr>docname := Missing, objname := Missing\<rparr> = idle"
    by (simp add: waiting_def idle_def)
  show ?thesis
    using guards cleared
      pending_state_cleared_after_guards
        [where self = waiting and on = "''IfcProject''" and dn = "''Unnamed''"
           and h = example_gui_host and doc = example_container and obj = example_feature
           and ifc_tools = example_tools
           and dlg = "\<lparr>exec_result = True, checkAskBeforeSaving = True\<rparr>"]
    by simp
qed

subsection \<open>Silent where guarded\<close>




subsection \<open>Renumbering the children\<close>




subsection \<open>Schema migration is triggered exactly when the schemas differ\<close>

text \<open>
  C5. \<^verbatim>\<open>slotChangedDocument\<close> calls \<^verbatim>\<open>ifc_tools.migrate_schema\<close> on the file \<open>f\<close> with
  the schema \<open>s\<close> if and only if the changed property is \<^verbatim>\<open>"Schema"\<close>, the document
  has the \<^verbatim>\<open>IfcFilePath\<close> property, \<^verbatim>\<open>get_ifcfile\<close> returns \<open>f\<close>, and the schema \<open>s\<close>
  the document declares differs from the schema name of \<open>f\<close>. When the two schemas are
  equal the handler changes nothing.
\<close>

theorem slotChangedDocument_migrates_iff:
  "(MigrateSchema f s
      \<in> set (new_calls h (snd (outcome (slotChangedDocument ifc_tools h doc pname))))
      \<longleftrightarrow> pname = ''Schema'' \<and> hasattr (IfcFilePath doc)
          \<and> get_ifcfile ifc_tools doc = Some f
          \<and> Schema doc = Attr s \<and> s \<noteq> schema_name f)
   \<and> (get_ifcfile ifc_tools doc = Some f \<and> Schema doc = Attr (schema_name f)
        \<longrightarrow> slotChangedDocument ifc_tools h doc pname = Inr (doc, h))"
  by (auto simp add: slotChangedDocument_def outcome_def new_calls_same new_calls_emit
      in_PropertiesList_IfcFilePath Let_def
      split: option.splits attr.splits prod.splits)

theorem slotChangedDocument_migrates_iff_witness:
  "MigrateSchema (IfcFile ''IFC4'') ''IFC2X3''
     \<in> set (new_calls empty_host
              (snd (outcome (slotChangedDocument example_tools empty_host
                               example_ifc_document ''Schema''))))
   \<and> slotChangedDocument example_tools empty_host
        (example_ifc_document\<lparr>Schema := Attr ''IFC4''\<rparr>) ''Schema''
       = Inr (example_ifc_document\<lparr>Schema := Attr ''IFC4''\<rparr>, empty_host)"
  using slotChangedDocument_migrates_iff
          [where f = "IfcFile ''IFC4''" and s = "''IFC2X3''" and h = empty_host
             and ifc_tools = example_tools and doc = example_ifc_document
             and pname = "''Schema''"]
        slotChangedDocument_migrates_iff
          [where f = "IfcFile ''IFC4''" and s = "''IFC4''" and h = empty_host
             and ifc_tools = example_tools
             and doc = "example_ifc_document\<lparr>Schema := Attr ''IFC4''\<rparr>"
             and pname = "''Schema''"]
  by (simp add: example_ifc_document_def example_defs)

subsection \<open>Deleting an object\<close>

text \<open>
  C6. \<^verbatim>\<open>slotDeletedObject\<close> calls \<^verbatim>\<open>ifc_tools.remove_ifc_element\<close> (once) if and only
  if \<^verbatim>\<open>get_project\<close> finds a project for the object, the object has a \<^verbatim>\<open>Proxy\<close>
  attribute, and the proxy's \<^verbatim>\<open>nodelete\<close> flag is not set; otherwise it calls nothing.
\<close>

theorem slotDeletedObject_removes_iff:
  "new_calls h (slotDeletedObject ifc_tools h obj) =
     (if get_project ifc_tools obj \<noteq> None \<and> hasattr (Proxy obj)
         \<and> \<not> (\<exists>px. Proxy obj = Attr (Some px) \<and> nodelete px = Attr True)
      then [RemoveIfcElement (Name obj)] else [])"
  by (auto simp add: slotDeletedObject_def new_calls_same new_calls_emit getattr_False_iff
      split: option.splits attr.splits)

theorem slotDeletedObject_removes_iff_witness:
  "new_calls empty_host (slotDeletedObject example_tools empty_host example_wall)
     = [RemoveIfcElement ''Wall'']
   \<and> new_calls empty_host
        (slotDeletedObject example_tools empty_host
           (example_wall\<lparr>Proxy := Attr (Some (plain_proxy\<lparr>nodelete := Attr True\<rparr>))\<rparr>))
     = []"
  using slotDeletedObject_removes_iff
          [where h = empty_host and ifc_tools = example_tools and obj = example_wall]
        slotDeletedObject_removes_iff
          [where h = empty_host and ifc_tools = example_tools
             and obj = "example_wall\<lparr>Proxy := Attr (Some (plain_proxy\<lparr>nodelete := Attr True\<rparr>))\<rparr>"]
  by (simp add: example_wall_def example_defs)

subsection \<open>Creating an object in a document without the marker\<close>

text \<open>
  C7. When the document of a created object has no \<^verbatim>\<open>IfcFilePath\<close> attribute,
  \<^verbatim>\<open>slotCreatedObject\<close> leaves the observer and the host as they were: no timer is
  started for \<^verbatim>\<open>convert\<close> and neither \<^verbatim>\<open>docname\<close> nor \<^verbatim>\<open>objname\<close> is written.
\<close>

theorem slotCreatedObject_without_marker:
  assumes "getattr_Document h obj = Some doc" and "\<not> hasattr (IfcFilePath doc)"
  shows "slotCreatedObject self h obj = (self, h)"
  using assms by (simp add: slotCreatedObject_def)

theorem slotCreatedObject_without_marker_witness:
  "getattr_Document example_plain_host example_box = Some (plain_document ''Unnamed'' [])
   \<and> \<not> hasattr (IfcFilePath (plain_document ''Unnamed'' []))
   \<and> slotCreatedObject \<lparr>docname = Missing, objname = Missing\<rparr> example_plain_host example_box
       = (\<lparr>docname = Missing, objname = Missing\<rparr>, example_plain_host)"
proof -
  have doc: "getattr_Document example_plain_host example_box
               = Some (plain_document ''Unnamed'' [])"
    by (simp add: getattr_Document_def example_plain_host_def example_box_def example_defs)
  have marker: "\<not> hasattr (IfcFilePath (plain_document ''Unnamed'' []))"
    by (simp add: example_defs)
  show ?thesis
    using doc marker slotCreatedObject_without_marker [OF doc marker] by simp
qed

subsection \<open>Activating an empty document twice\<close>

text \<open>
  C8. Activating a document that has a proxy with an \<^verbatim>\<open>ifcfile\<close> attribute, no objects
  and no \<^verbatim>\<open>ghost\<close> attribute calls \<^verbatim>\<open>ifc_generator.create_ghost\<close> exactly once.
  Activating a document whose proxy carries the \<^verbatim>\<open>ghost\<close> attribute afterwards adds
  no call of \<^verbatim>\<open>create_ghost\<close>; when that document still has no objects the second
  activation does nothing at all.
\<close>

theorem slotActivateDocument_ghost_once:
  assumes "Proxy doc = Attr (Some p)" and "hasattr (ifcfile p)"
      and "Objects doc = []" and "\<not> hasattr (ghost p)"
      and "Proxy doc' = Attr (Some p')" and "hasattr (ghost p')"
  shows "\<exists>h1. slotActivateDocument h doc = Inr (doc, h1)
            \<and> new_calls h h1 = [CreateGhost (Name doc)]
            \<and> ghost_calls (snd (outcome (slotActivateDocument h1 doc'))) = ghost_calls h1
            \<and> (Objects doc' = [] \<longrightarrow> slotActivateDocument h1 doc' = Inr (doc', h1))"
proof -
  let ?h1 = "emit (CreateGhost (Name doc)) h"
  have first: "slotActivateDocument h doc = Inr (doc, ?h1)"
    using assms(1-4) by (simp add: slotActivateDocument_def)
  have again: "ghost_calls (snd (outcome (slotActivateDocument ?h1 doc'))) = ghost_calls ?h1"
  proof (cases "hasattr (ifcfile p') \<and> Objects doc' \<noteq> []")
    case True
    have "ghost_calls (snd (outcome (activate_objects (Objects doc') ?h1))) = ghost_calls ?h1"
      by (rule ghost_calls_activate_objects)
    then show ?thesis
      using True assms(5)
      by (auto simp add: slotActivateDocument_def outcome_def ghost_calls_singleShot
          split: sum.splits prod.splits)
  next
    case False
    then show ?thesis
      using assms(5,6) by (auto simp add: slotActivateDocument_def outcome_def)
  qed
  have empty: "Objects doc' = [] \<longrightarrow> slotActivateDocument ?h1 doc' = Inr (doc', ?h1)"
    using assms(5,6) by (simp add: slotActivateDocument_def)
  show ?thesis
    using first again empty by (simp add: new_calls_emit)
qed

theorem slotActivateDocument_ghost_once_witness:
  "\<exists>h1. slotActivateDocument empty_host example_ghostless = Inr (example_ghostless, h1)
      \<and> new_calls empty_host h1 = [CreateGhost ''Project'']
      \<and> ghost_calls (snd (outcome (slotActivateDocument h1 example_ghosted))) = ghost_calls h1
      \<and> slotActivateDocument h1 example_ghosted = Inr (example_ghosted, h1)"
proof -
  let ?p = "plain_proxy\<lparr>ifcfile := Attr (Some (IfcFile ''IFC4''))\<rparr>"
  let ?p' = "plain_proxy\<lparr>ifcfile := Attr (Some (IfcFile ''IFC4'')), ghost := Attr ()\<rparr>"
  have before: "Proxy example_ghostless = Attr (Some ?p)" "hasattr (ifcfile ?p)"
    "Objects example_ghostless = []" "\<not> hasattr (ghost ?p)"
    by (simp_all add: example_ghostless_def example_ifc_document_def example_defs)
  have after: "Proxy example_ghosted = Attr (Some ?p')" "hasattr (ghost ?p')"
    "Objects example_ghosted = []" "Name example_ghostless = ''Project''"
    by (simp_all add: example_ghosted_def example_ghostless_def example_ifc_document_def
        example_defs)
  show ?thesis
    using slotActivateDocument_ghost_once
            [OF before after(1,2), where h = empty_host]
    by (simp add: after(3,4))
qed

subsection \<open>One field for two concerns\<close>

text \<open>
  C9. \<^verbatim>\<open>slotStartSaveDocument\<close> and \<^verbatim>\<open>slotCreatedObject\<close> write the same attribute
  \<^verbatim>\<open>docname\<close>. When an object of an IFC document is created after a save has
  started, the name recorded for the save is overwritten by the name of the created
  object's document. The \<^verbatim>\<open>save\<close> that fires afterwards works on that document: what
  it does is fixed by the candidates of the created object's document, whatever the
  document being saved holds. Without a prompt it runs its loop over these
  candidates, and calls the view provider of each of them when all are saveable;
  with a prompt it shows the dialog and, when the dialog is accepted, runs the loop
  over them; with no candidate in that document it saves nothing.
\<close>

theorem slotCreatedObject_overwrites_docname:
  assumes "Document obj = Attr (Name owner)" and "documents h (Name owner) = Some owner"
      and "hasattr (IfcFilePath owner)"
      and "slotStartSaveDocument self h saved val = (self_saving, h_saving)"
      and "slotCreatedObject self_saving h_saving obj = (self_created, h_created)"
  shows "docname self_saving = Attr (Name saved)
       \<and> docname self_created = Attr (Name owner)
       \<and> self_created = self\<lparr>docname := Attr (Name owner), objname := Attr (Name obj)\<rparr>
       \<and> (save_candidates owner = []
            \<longrightarrow> save dlg self_created h_created
                  = Inr (self_created\<lparr>docname := Missing\<rparr>, h_created))
       \<and> (\<not> (GetBool h True \<and> GuiUp h)
            \<longrightarrow> save dlg self_created h_created
                  = with_self (self_created\<lparr>docname := Missing\<rparr>)
                      (save_all (save_candidates owner) h_created))
       \<and> (\<not> (GetBool h True \<and> GuiUp h) \<and> (\<forall>c \<in> set (save_candidates owner). saveable c)
            \<longrightarrow> save dlg self_created h_created
                  = Inr (self_created\<lparr>docname := Missing\<rparr>,
                         h_created\<lparr>calls := calls h_created
                                              @ map save_call (save_candidates owner)\<rparr>))
       \<and> (GetBool h True \<and> GuiUp h \<and> save_candidates owner \<noteq> []
            \<longrightarrow> save dlg self_created h_created
                  = (if exec_result dlg
                     then with_self (self_created\<lparr>docname := Missing\<rparr>)
                            (save_all (save_candidates owner)
                               (SetBool (checkAskBeforeSaving dlg) (emit DialogExec h_created)))
                     else Inr (self_created\<lparr>docname := Missing\<rparr>,
                               emit DialogExec h_created)))"
proof -
  have saving: "self_saving = self\<lparr>docname := Attr (Name saved)\<rparr>"
    "h_saving = singleShot 100 CbSave h"
    using assms(4) by (simp_all add: slotStartSaveDocument_def)
  have found: "getattr_Document h_saving obj = Some owner"
    using assms(1,2) saving(2) by (simp add: getattr_Document_def singleShot_def emit_def)
  have created: "self_created = self\<lparr>docname := Attr (Name owner), objname := Attr (Name obj)\<rparr>"
    "h_created = singleShot 100 CbConvert h_saving"
    using assms(3,5) found saving(1) by (auto simp add: slotCreatedObject_def)
  have host: "documents h_created (Name owner) = Some owner"
    "GetBool h_created True = GetBool h True" "GuiUp h_created = GuiUp h"
    using assms(2) created(2) saving(2)
    by (simp_all add: singleShot_def emit_def GetBool_def)
  have run: "save dlg self_created h_created
          = save_document dlg (self_created\<lparr>docname := Missing\<rparr>) h_created owner"
    using created(1) host(1) by (simp add: save_def)
  have none: "save_candidates owner = []
      \<longrightarrow> save dlg self_created h_created
            = Inr (self_created\<lparr>docname := Missing\<rparr>, h_created)"
    by (simp add: run save_document_def)
  have direct: "\<not> (GetBool h True \<and> GuiUp h)
      \<longrightarrow> save dlg self_created h_created
            = with_self (self_created\<lparr>docname := Missing\<rparr>)
                (save_all (save_candidates owner) h_created)"
    by (auto simp add: run save_document_def Let_def host(2,3) with_self_def)
  have loop: "(\<forall>c \<in> set (save_candidates owner). saveable c)
      \<longrightarrow> save_all (save_candidates owner) h_created
            = Inr (h_created\<lparr>calls := calls h_created @ map save_call (save_candidates owner)\<rparr>)"
    by (simp add: save_all_saveable)
  have saved: "\<not> (GetBool h True \<and> GuiUp h) \<and> (\<forall>c \<in> set (save_candidates owner). saveable c)
      \<longrightarrow> save dlg self_created h_created
            = Inr (self_created\<lparr>docname := Missing\<rparr>,
                   h_created\<lparr>calls := calls h_created
                                        @ map save_call (save_candidates owner)\<rparr>)"
    using direct loop by (simp add: with_self_def)
  have prompt: "GetBool h True \<and> GuiUp h \<and> save_candidates owner \<noteq> []
      \<longrightarrow> save dlg self_created h_created
            = (if exec_result dlg
               then with_self (self_created\<lparr>docname := Missing\<rparr>)
                      (save_all (save_candidates owner)
                         (SetBool (checkAskBeforeSaving dlg) (emit DialogExec h_created)))
               else Inr (self_created\<lparr>docname := Missing\<rparr>, emit DialogExec h_created))"
    by (simp add: run save_document_def Let_def host(2,3))
  have names: "docname self_saving = Attr (Name saved)" "docname self_created = Attr (Name owner)"
    using saving(1) created(1) by simp_all
  show ?thesis
    using names created(1) none direct saved prompt by (intro conjI)
qed

theorem slotCreatedObject_overwrites_docname_witness:
  "docname (fst (slotStartSaveDocument idle (example_quiet_host example_project_with_slab)
                   example_container True))
     = Attr ''Unnamed''
   \<and> save \<lparr>exec_result = True, checkAskBeforeSaving = True\<rparr>
        (fst (slotStartSaveDocument idle (example_quiet_host example_project_with_slab)
                example_container True))
        (snd (slotStartSaveDocument idle (example_quiet_host example_project_with_slab)
                example_container True))
       = Inr (idle,
              (snd (slotStartSaveDocument idle (example_quiet_host example_project_with_slab)
                      example_container True))
                \<lparr>calls := [SingleShot 100 CbSave, ViewProxySaveAs ''IfcProject'']\<rparr>)
   \<and> docname
        (fst (slotCreatedObject
                (fst (slotStartSaveDocument idle (example_quiet_host example_project_with_slab)
                        example_container True))
                (snd (slotStartSaveDocument idle (example_quiet_host example_project_with_slab)
                        example_container True))
                example_beam))
     = Attr ''Project''
   \<and> save \<lparr>exec_result = True, checkAskBeforeSaving = True\<rparr>
        (fst (slotCreatedObject
                (fst (slotStartSaveDocument idle (example_quiet_host example_project_with_slab)
                        example_container True))
                (snd (slotStartSaveDocument idle (example_quiet_host example_project_with_slab)
                        example_container True))
                example_beam))
        (snd (slotCreatedObject
                (fst (slotStartSaveDocument idle (example_quiet_host example_project_with_slab)
                        example_container True))
                (snd (slotStartSaveDocument idle (example_quiet_host example_project_with_slab)
                        example_container True))
                example_beam))
       = Inr (idle\<lparr>objname := Attr ''Beam''\<rparr>,
              (example_quiet_host example_project_with_slab)
                \<lparr>calls := [SingleShot 100 CbSave, SingleShot 100 CbConvert,
                            ViewProxySaveAs ''Slab'']\<rparr>)"
proof -
  let ?h = "example_quiet_host example_project_with_slab"
  let ?dlg = "\<lparr>exec_result = True, checkAskBeforeSaving = True\<rparr>"
  let ?saving = "slotStartSaveDocument idle ?h example_container True"
  let ?created = "slotCreatedObject (fst ?saving) (snd ?saving) example_beam"
  have owner: "Document example_beam = Attr (Name example_project_with_slab)"
    "documents ?h (Name example_project_with_slab) = Some example_project_with_slab"
    "hasattr (IfcFilePath example_project_with_slab)"
    by (simp_all add: example_beam_def example_quiet_host_def example_project_with_slab_def
        example_ifc_document_def example_defs)
  have names: "Name example_container = ''Unnamed''" "Name example_project_with_slab = ''Project''"
    "Name example_beam = ''Beam''"
    by (simp_all add: example_container_def example_project_with_slab_def example_beam_def
        example_ifc_document_def example_defs)
  have quiet: "\<not> (GetBool ?h True \<and> GuiUp ?h)"
    by (simp add: example_quiet_host_def GetBool_def)
  have candidates: "save_candidates example_project_with_slab = [example_slab]"
    by (simp add: save_candidates_def findObjects_def isDerivedFrom_def
        example_project_with_slab_def example_ifc_document_def example_slab_def example_defs)
  have slab: "saveable example_slab" "save_call example_slab = ViewProxySaveAs ''Slab''"
    by (simp_all add: saveable_def has_view_provider_def save_call_def has_ifcfile_def
        example_slab_def example_defs)
  have all: "\<forall>c \<in> set (save_candidates example_project_with_slab). saveable c"
    using slab(1) by (simp add: candidates)
  note overwritten = slotCreatedObject_overwrites_docname
      [OF owner, where self = idle and saved = example_container and val = True
         and self_saving = "fst ?saving" and h_saving = "snd ?saving"
         and self_created = "fst ?created" and h_created = "snd ?created" and dlg = ?dlg,
       OF prod.collapse [symmetric] prod.collapse [symmetric]]
  have first: "docname (fst ?saving) = Attr ''Unnamed''"
    using overwritten [THEN conjunct1] by (simp only: names)
  have second: "docname (fst ?created) = Attr ''Project''"
    using overwritten [THEN conjunct2, THEN conjunct1] by (simp only: names)
  have observer: "fst ?created = idle\<lparr>docname := Attr ''Project'', objname := Attr ''Beam''\<rparr>"
    using overwritten [THEN conjunct2, THEN conjunct2, THEN conjunct1] by (simp only: names)
  have host: "snd ?created
      = ?h\<lparr>calls := [SingleShot 100 CbSave, SingleShot 100 CbConvert]\<rparr>"
    using owner
    by (simp add: slotStartSaveDocument_def slotCreatedObject_def getattr_Document_def
        singleShot_def emit_def example_quiet_host_def)
  have "save ?dlg (fst ?created) (snd ?created)
      = Inr ((fst ?created)\<lparr>docname := Missing\<rparr>,
             (snd ?created)\<lparr>calls := calls (snd ?created)
                                         @ map save_call (save_candidates
                                                            example_project_with_slab)\<rparr>)"
    using overwritten [THEN conjunct2, THEN conjunct2, THEN conjunct2, THEN conjunct2,
                       THEN conjunct2, THEN conjunct1]
      quiet all
    by blast
  moreover have "(fst ?created)\<lparr>docname := Missing\<rparr> = idle\<lparr>objname := Attr ''Beam''\<rparr>"
    unfolding observer by (simp add: idle_def)
  moreover have "(snd ?created)\<lparr>calls := calls (snd ?created)
                                         @ map save_call (save_candidates
                                                            example_project_with_slab)\<rparr>
      = ?h\<lparr>calls := [SingleShot 100 CbSave, SingleShot 100 CbConvert,
                      ViewProxySaveAs ''Slab'']\<rparr>"
    unfolding host by (simp add: candidates slab(2))
  ultimately have third: "save ?dlg (fst ?created) (snd ?created)
      = Inr (idle\<lparr>objname := Attr ''Beam''\<rparr>,
             ?h\<lparr>calls := [SingleShot 100 CbSave, SingleShot 100 CbConvert,
                         ViewProxySaveAs ''Slab'']\<rparr>)"
    by (simp only:)
  have instead: "save ?dlg (fst ?saving) (snd ?saving)
      = Inr (idle, (snd ?saving)\<lparr>calls := [SingleShot 100 CbSave,
                                               ViewProxySaveAs ''IfcProject'']\<rparr>)"
    by (simp add: slotStartSaveDocument_def singleShot_def emit_def save_def save_document_def
        save_candidates_def findObjects_def isDerivedFrom_def save_object_def
        call_view_proxy_def with_self_def GetBool_def example_quiet_host_def
        example_container_def example_feature_def idle_def example_defs)
  show ?thesis
    using first instead second third by (intro conjI)
qed

subsection \<open>Rejecting the confirmation dialog\<close>

text \<open>
  C10. When \<^verbatim>\<open>save\<close> shows the dialog and the user rejects it, \<^verbatim>\<open>save\<close> returns
  having only shown the dialog: nothing is saved and the \<^verbatim>\<open>AskBeforeSaving\<close>
  parameter is as before. Whenever a run of \<^verbatim>\<open>save\<close> changes the stored parameter,
  the dialog was shown and accepted.
\<close>

theorem save_rejected_dialog:
  "(docname self = Attr dn \<and> documents h dn = Some doc \<and> save_candidates doc \<noteq> []
      \<and> GetBool h True \<and> GuiUp h \<and> \<not> exec_result dlg
      \<longrightarrow> save dlg self h = Inr (self\<lparr>docname := Missing\<rparr>, emit DialogExec h))
   \<and> (AskBeforeSaving (snd (outcome (save dlg self h))) \<noteq> AskBeforeSaving h
        \<or> filter is_SetBool (new_calls h (snd (outcome (save dlg self h)))) \<noteq> []
      \<longrightarrow> exec_result dlg
          \<and> DialogExec \<in> set (new_calls h (snd (outcome (save dlg self h)))))"
proof -
  let ?h' = "snd (outcome (save dlg self h))"
  have written: "AskBeforeSaving ?h' \<noteq> AskBeforeSaving h
        \<or> filter is_SetBool (new_calls h ?h') \<noteq> []
      \<longrightarrow> exec_result dlg \<and> DialogExec \<in> set (new_calls h ?h')"
  proof (cases "\<exists>dn doc. docname self = Attr dn \<and> documents h dn = Some doc
                  \<and> save_candidates doc \<noteq> [] \<and> GetBool h True \<and> GuiUp h \<and> exec_result dlg")
    case True
    then obtain dn doc where d: "docname self = Attr dn" "documents h dn = Some doc"
      "save_candidates doc \<noteq> []" "GetBool h True" "GuiUp h" "exec_result dlg"
      by blast
    let ?h2 = "SetBool (checkAskBeforeSaving dlg) (emit DialogExec h)"
    obtain cs where cs: "calls (outcome (save_all (save_candidates doc) ?h2)) = calls ?h2 @ cs"
      using save_all_frame [of "save_candidates doc" ?h2] by blast
    have "?h' = outcome (save_all (save_candidates doc) ?h2)"
      using d by (simp add: save_def save_document_def Let_def outcome_with_self)
    then show ?thesis
      using d(6) cs by (simp add: new_calls_def SetBool_def emit_def)
  next
    case False
    have "AskBeforeSaving ?h' = AskBeforeSaving h \<and> filter is_SetBool (new_calls h ?h') = []"
    proof (cases "docname self")
      case Missing
      then show ?thesis by (simp add: save_def outcome_def new_calls_same)
    next
      case (Attr dn)
      show ?thesis
      proof (cases "documents h dn")
        case None
        then show ?thesis using Attr by (simp add: save_def outcome_def new_calls_same)
      next
        case (Some doc)
        obtain cs where cs:
          "AskBeforeSaving (outcome (save_all (save_candidates doc) h)) = AskBeforeSaving h"
          "calls (outcome (save_all (save_candidates doc) h)) = calls h @ cs"
          "filter is_SetBool cs = []"
          using save_all_frame [of "save_candidates doc" h] by blast
        have quiet: "new_calls h (outcome (save_all (save_candidates doc) h)) = cs"
          using cs(2) by (simp add: new_calls_def)
        consider (none) "save_candidates doc = []"
          | (rejected) "save_candidates doc \<noteq> []" "GetBool h True" "GuiUp h"
              "\<not> exec_result dlg"
          | (direct) "save_candidates doc \<noteq> []" "\<not> (GetBool h True \<and> GuiUp h)"
          using False Attr Some by blast
        then show ?thesis
        proof cases
          case none
          then show ?thesis
            using Attr Some
            by (simp add: save_def save_document_def outcome_def new_calls_same)
        next
          case rejected
          then show ?thesis
            using Attr Some
            by (simp add: save_def save_document_def outcome_def new_calls_emit
                AskBeforeSaving_emit)
        next
          case direct
          then have "?h' = outcome (save_all (save_candidates doc) h)"
            using Attr Some
            by (auto simp add: save_def save_document_def Let_def outcome_with_self)
          then show ?thesis
            using cs(1,3) quiet by simp
        qed
      qed
    qed
    then show ?thesis by simp
  qed
  have rejected: "docname self = Attr dn \<and> documents h dn = Some doc
      \<and> save_candidates doc \<noteq> [] \<and> GetBool h True \<and> GuiUp h \<and> \<not> exec_result dlg
      \<longrightarrow> save dlg self h = Inr (self\<lparr>docname := Missing\<rparr>, emit DialogExec h)"
    by (simp add: save_def save_document_def Let_def)
  show ?thesis
    using rejected written by (rule conjI)
qed

theorem save_rejected_dialog_witness:
  "save \<lparr>exec_result = False, checkAskBeforeSaving = False\<rparr>
        (idle\<lparr>docname := Attr ''Unnamed''\<rparr>) example_gui_host
     = Inr (idle\<lparr>docname := Missing\<rparr>, emit DialogExec example_gui_host)"
proof -
  have shown: "documents example_gui_host ''Unnamed'' = Some example_container"
    "save_candidates example_container \<noteq> []"
    "GetBool example_gui_host True" "GuiUp example_gui_host"
    by (simp_all add: example_gui_host_def example_container_def example_feature_def
        save_candidates_def findObjects_def isDerivedFrom_def GetBool_def example_defs)
  show ?thesis
    using shown
      save_rejected_dialog
        [where self = "idle\<lparr>docname := Attr ''Unnamed''\<rparr>" and dn = "''Unnamed''"
           and h = example_gui_host and doc = example_container
           and dlg = "\<lparr>exec_result = False, checkAskBeforeSaving = False\<rparr>"]
    by (simp add: idle_def)
qed

end
